theory Spec2Isabelle
  imports Main "HOL-Library.Word"
begin

unbundle bit_operations_syntax

section \<open>The Goodix touchscreen driver: data model\<close>

text \<open>
  A shallow embedding of \<^verbatim>\<open>drivers/input/touchscreen/goodix.c\<close>. Bytes on the wire are
  \<open>8 word\<close>, register and slave addresses \<open>16 word\<close>. The C \<^verbatim>\<open>int\<close> fields that only
  ever hold a 16-bit reading, a small constant or an errno are \<open>int\<close>; the atomic
  \<^verbatim>\<open>open_count\<close>, which the code increments without a bound, is a \<open>32 word\<close>.
\<close>

type_synonym u8 = "8 word"
type_synonym u16 = "16 word"

definition EIO :: int where "EIO = 5"
definition EAGAIN :: int where "EAGAIN = 11"
definition ENOMEM :: int where "ENOMEM = 12"
definition EINVAL :: int where "EINVAL = 22"
definition EPROTO :: int where "EPROTO = 71"

definition GOODIX_MAX_HEIGHT :: int where "GOODIX_MAX_HEIGHT = 4096"
definition GOODIX_MAX_WIDTH :: int where "GOODIX_MAX_WIDTH = 4096"
definition GOODIX_INT_TRIGGER :: nat where "GOODIX_INT_TRIGGER = 1"
definition GOODIX_CONTACT_SIZE :: nat where "GOODIX_CONTACT_SIZE = 8"
definition GOODIX_MAX_CONTACTS :: nat where "GOODIX_MAX_CONTACTS = 10"

definition GOODIX_CONFIG_MAX_LENGTH :: int where "GOODIX_CONFIG_MAX_LENGTH = 240"
definition GOODIX_CONFIG_911_LENGTH :: int where "GOODIX_CONFIG_911_LENGTH = 186"
definition GOODIX_CONFIG_967_LENGTH :: int where "GOODIX_CONFIG_967_LENGTH = 228"

definition GOODIX_REG_COMMAND :: u16 where "GOODIX_REG_COMMAND = 0x8040"
definition GOODIX_CMD_SCREEN_OFF :: u8 where "GOODIX_CMD_SCREEN_OFF = 0x05"
definition GOODIX_CMD_ESD_ENABLED :: u8 where "GOODIX_CMD_ESD_ENABLED = 0xAA"
definition GOODIX_REG_ESD_CHECK :: u16 where "GOODIX_REG_ESD_CHECK = 0x8041"
definition GOODIX_READ_COOR_ADDR :: u16 where "GOODIX_READ_COOR_ADDR = 0x814E"
definition GOODIX_REG_CONFIG_DATA :: u16 where "GOODIX_REG_CONFIG_DATA = 0x8047"

definition RESOLUTION_LOC :: int where "RESOLUTION_LOC = 1"
definition MAX_CONTACTS_LOC :: int where "MAX_CONTACTS_LOC = 5"
definition TRIGGER_LOC :: int where "TRIGGER_LOC = 6"

record goodix_ts_data =
  client_addr :: u16
  abs_x_max :: int
  abs_y_max :: int
  swapped_x_y :: bool
  inverted_x :: bool
  inverted_y :: bool
  max_touch_num :: nat
  int_trigger_type :: nat
  cfg_len :: int
  substitute_i2c_address :: int
  gpiod_int :: bool
  gpiod_rst :: bool
  id_num :: u16
  version :: u16
  esd_timeout :: int
  suspended :: bool
  open_count :: "32 word"

text \<open>
  \<open>id_num\<close> is the field \<^verbatim>\<open>id\<close>. \<open>gpiod_int\<close> and \<open>gpiod_rst\<close> say whether the
  descriptor pointer is non-NULL; the driver tests nothing else of them. Diagnostic
  output (\<^verbatim>\<open>dev_err\<close>, \<^verbatim>\<open>dev_dbg\<close>) is left out.
\<close>

subsection \<open>The world outside the driver\<close>

text \<open>
  Every call that leaves the driver (bus transfer, GPIO, allocator, input core, PM core,
  firmware loader, work queue) is appended to a trace. A call whose result the driver
  looks at takes it from a reply function: the \<open>n\<close>-th such call gets \<open>replies n\<close>, a return
  value and the bytes the callee delivers. Theorems quantify over the replies, so over
  every behaviour of the hardware and the kernel.
\<close>

datatype gpio_line = GPIO_INT | GPIO_RST

datatype abs_code =
  ABS_MT_POSITION_X | ABS_MT_POSITION_Y | ABS_MT_TOUCH_MAJOR | ABS_MT_WIDTH_MAJOR

datatype irqreturn = IRQ_NONE | IRQ_HANDLED | IRQ_WAKE_THREAD

datatype event =
    I2cRead u16 u16 nat
  | I2cWrite u16 "u8 list"
  | Kmalloc nat
  | Kfree
  | GpioOut gpio_line int
  | GpioIn gpio_line
  | Msleep nat
  | UsleepRange nat nat
  | InputMtSlot int
  | InputMtReportSlotState bool
  | InputReportAbs abs_code int
  | InputMtSyncFrame
  | InputSync
  | FreeIrq
  | RequestIrq
  | RequestFirmware
  | ReleaseFirmware
  | ScheduleDelayedWork int
  | CancelDelayedWorkSync
  | WaitForCompletion
  | MutexLock
  | MutexUnlock
  | PmGetSync
  | PmMarkLastBusy
  | PmPutAutosuspend
  | PmPutNoidle
  | DmiCheckSystem

text \<open>
  \<open>I2cRead a r n\<close> is the two-message transfer of \<^verbatim>\<open>goodix_i2c_read\<close>: register \<open>r\<close>
  big-endian to slave \<open>a\<close>, then \<open>n\<close> bytes read back. \<open>I2cWrite a bs\<close> is a
  one-message transfer of the bytes \<open>bs\<close> to slave \<open>a\<close>.
\<close>

type_synonym resp = "int \<times> u8 list"

record world =
  replies :: "nat \<Rightarrow> resp"
  tick :: nat
  trace :: "event list"

definition emit :: "event \<Rightarrow> world \<Rightarrow> world" where
  "emit ev w = w\<lparr>trace := trace w @ [ev]\<rparr>"

definition ext_call :: "event \<Rightarrow> world \<Rightarrow> resp \<times> world" where
  "ext_call ev w = (replies w (tick w), w\<lparr>tick := tick w + 1, trace := trace w @ [ev]\<rparr>)"

text \<open>The \<open>n\<close> bytes a read leaves in its buffer.\<close>

definition rx :: "nat \<Rightarrow> u8 list \<Rightarrow> u8 list" where
  "rx n bs = take n (bs @ replicate n 0)"

text \<open>\<^verbatim>\<open>ret < 0 ? ret : (ret != n ? -EIO : 0)\<close>\<close>

definition xfer_status :: "int \<Rightarrow> int \<Rightarrow> int" where
  "xfer_status ret n = (if ret < 0 then ret else if ret \<noteq> n then - EIO else 0)"

section \<open>Bus transport\<close>

definition goodix_i2c_read :: "u16 \<Rightarrow> u16 \<Rightarrow> nat \<Rightarrow> world \<Rightarrow> (int \<times> u8 list) \<times> world" where
  "goodix_i2c_read addr reg len w =
     (case ext_call (I2cRead addr reg len) w of
        ((ret, bs), w1) \<Rightarrow> ((xfer_status ret 2, rx len bs), w1))"

definition reg_hi :: "u16 \<Rightarrow> u8" where
  "reg_hi reg = ucast (drop_bit 8 reg)"

definition reg_lo :: "u16 \<Rightarrow> u8" where
  "reg_lo reg = ucast (reg AND 0xFF)"

definition goodix_i2c_write :: "u16 \<Rightarrow> u16 \<Rightarrow> u8 list \<Rightarrow> world \<Rightarrow> int \<times> world" where
  "goodix_i2c_write addr reg buf w =
     (case ext_call (Kmalloc (length buf + 2)) w of
        ((addr_buf, _), w1) \<Rightarrow>
          if addr_buf = 0 then (- ENOMEM, w1)
          else (case ext_call (I2cWrite addr (reg_hi reg # reg_lo reg # buf)) w1 of
                  ((ret, _), w2) \<Rightarrow> (xfer_status ret 1, emit Kfree w2)))"

definition goodix_i2c_write_u8 :: "u16 \<Rightarrow> u16 \<Rightarrow> u8 \<Rightarrow> world \<Rightarrow> int \<times> world" where
  "goodix_i2c_write_u8 addr reg val = goodix_i2c_write addr reg [val]"

section \<open>Configuration length\<close>

definition goodix_get_cfg_len :: "u16 \<Rightarrow> int" where
  "goodix_get_cfg_len i =
     (if i = 911 \<or> i = 9271 \<or> i = 9110 \<or> i = 927 \<or> i = 928 then GOODIX_CONFIG_911_LENGTH
      else if i = 912 \<or> i = 967 then GOODIX_CONFIG_967_LENGTH
      else GOODIX_CONFIG_MAX_LENGTH)"

section \<open>Configuration check and send\<close>

text \<open>
  A firmware blob is its byte list; \<^verbatim>\<open>cfg->size\<close> is the length. C reads
  \<^verbatim>\<open>cfg->data[i]\<close> without a check, so an index outside the blob is undefined
  behaviour: \<open>data_at\<close> gives \<open>None\<close> there and the functions that read pass it on.
\<close>

definition data_at :: "u8 list \<Rightarrow> int \<Rightarrow> u8 option" where
  "data_at d i = (if 0 \<le> i \<and> i < int (length d) then Some (d ! nat i) else None)"

function check_sum_loop :: "u8 list \<Rightarrow> int \<Rightarrow> int \<Rightarrow> u8 \<Rightarrow> u8 option" where
  "check_sum_loop d raw_cfg_len i check_sum =
     (if i < raw_cfg_len then
        (case data_at d i of
           None \<Rightarrow> None
         | Some b \<Rightarrow> check_sum_loop d raw_cfg_len (i + 1) (check_sum + b))
      else Some check_sum)"
  by pat_completeness auto
termination
  by (relation "measure (\<lambda>(d, raw_cfg_len, i, check_sum). nat (raw_cfg_len - i))") auto

declare check_sum_loop.simps [simp del]

text \<open>
  \<^verbatim>\<open>raw_cfg_len = cfg->size - 2\<close> is computed in \<^verbatim>\<open>size_t\<close> and stored in an
  \<^verbatim>\<open>int\<close>: for sizes 0 and 1 it is -2 and -1.
\<close>

definition goodix_check_cfg :: "u8 list \<Rightarrow> int option" where
  "goodix_check_cfg cfg =
     (if int (length cfg) > GOODIX_CONFIG_MAX_LENGTH then Some (- EINVAL)
      else
        let raw_cfg_len = int (length cfg) - 2 in
        (case check_sum_loop cfg raw_cfg_len 0 0 of
           None \<Rightarrow> None
         | Some s \<Rightarrow>
             let check_sum = NOT s + 1 in
             (case data_at cfg raw_cfg_len of
                None \<Rightarrow> None
              | Some c \<Rightarrow>
                  if check_sum \<noteq> c then Some (- EINVAL)
                  else (case data_at cfg (raw_cfg_len + 1) of
                          None \<Rightarrow> None
                        | Some f \<Rightarrow> if f \<noteq> 1 then Some (- EINVAL) else Some 0))))"

definition goodix_send_cfg :: "goodix_ts_data \<Rightarrow> u8 list \<Rightarrow> world \<Rightarrow> (int \<times> world) option" where
  "goodix_send_cfg ts cfg w =
     (case goodix_check_cfg cfg of
        None \<Rightarrow> None
      | Some error \<Rightarrow>
          if error \<noteq> 0 then Some (error, w)
          else (case goodix_i2c_write (client_addr ts) GOODIX_REG_CONFIG_DATA cfg w of
                  (error, w1) \<Rightarrow>
                    if error \<noteq> 0 then Some (error, w1)
                    else Some (0, emit (UsleepRange 10000 11000) w1)))"

section \<open>GPIO lines and the reset handshake\<close>

definition set_reset_output_val :: "goodix_ts_data \<Rightarrow> int \<Rightarrow> world \<Rightarrow> int \<times> world" where
  "set_reset_output_val ts val w =
     (case ext_call (GpioOut GPIO_RST val) w of ((ret, _), w1) \<Rightarrow> (ret, w1))"

definition set_int_output_val :: "goodix_ts_data \<Rightarrow> int \<Rightarrow> world \<Rightarrow> int \<times> world" where
  "set_int_output_val ts val w =
     (if substitute_i2c_address ts \<noteq> 0 then
        (case ext_call (I2cWrite (word_of_int (substitute_i2c_address ts))
                          [0x1d, if val \<noteq> 0 then 9 else 1]) w of
           ((ret, _), w1) \<Rightarrow> (xfer_status ret 1, w1))
      else (case ext_call (GpioOut GPIO_INT val) w of ((ret, _), w1) \<Rightarrow> (ret, w1)))"

definition set_int_input :: "goodix_ts_data \<Rightarrow> world \<Rightarrow> int \<times> world" where
  "set_int_input ts w =
     (case ext_call (GpioIn GPIO_INT) w of
        ((ret, _), w1) \<Rightarrow>
          if substitute_i2c_address ts \<noteq> 0 then
            (case ext_call (I2cWrite (word_of_int (substitute_i2c_address ts)) [0x1d, 3]) w1 of
               ((ret, _), w2) \<Rightarrow> (xfer_status ret 1, w2))
          else (ret, w1))"

definition goodix_int_sync :: "goodix_ts_data \<Rightarrow> world \<Rightarrow> int \<times> world" where
  "goodix_int_sync ts w =
     (case set_int_output_val ts 0 w of
        (error, w1) \<Rightarrow>
          if error \<noteq> 0 then (error, w1)
          else set_int_input ts (emit (Msleep 50) w1))"

definition goodix_reset :: "goodix_ts_data \<Rightarrow> world \<Rightarrow> int \<times> world" where
  "goodix_reset ts w =
     (case set_reset_output_val ts 0 w of
        (error, w1) \<Rightarrow>
          if error \<noteq> 0 then (error, w1)
          else
            (case set_int_output_val ts (if client_addr ts = 0x14 then 1 else 0)
                    (emit (Msleep 20) w1) of
               (error, w2) \<Rightarrow>
                 if error \<noteq> 0 then (error, w2)
                 else
                   (case set_reset_output_val ts 1 (emit (UsleepRange 100 2000) w2) of
                      (error, w3) \<Rightarrow>
                        if error \<noteq> 0 then (error, w3)
                        else goodix_int_sync ts (emit (UsleepRange 6000 10000) w3))))"

section \<open>Interrupt line\<close>

definition goodix_free_irq :: "goodix_ts_data \<Rightarrow> world \<Rightarrow> world" where
  "goodix_free_irq ts w = emit FreeIrq w"

definition goodix_request_irq :: "goodix_ts_data \<Rightarrow> world \<Rightarrow> int \<times> world" where
  "goodix_request_irq ts w = (case ext_call RequestIrq w of ((ret, _), w1) \<Rightarrow> (ret, w1))"

section \<open>ESD supervisor\<close>

definition goodix_disable_esd :: "goodix_ts_data \<Rightarrow> world \<Rightarrow> world" where
  "goodix_disable_esd ts w =
     (if esd_timeout ts = 0 then w else emit CancelDelayedWorkSync w)"

definition goodix_enable_esd :: "goodix_ts_data \<Rightarrow> world \<Rightarrow> int \<times> world" where
  "goodix_enable_esd ts w =
     (if esd_timeout ts = 0 then (0, w)
      else
        (case goodix_i2c_write_u8 (client_addr ts) GOODIX_REG_ESD_CHECK
                GOODIX_CMD_ESD_ENABLED w of
           (error, w1) \<Rightarrow>
             if error \<noteq> 0 then (error, w1)
             else (0, emit (ScheduleDelayedWork (esd_timeout ts)) w1)))"

text \<open>
  The loop \<^verbatim>\<open>while (--retries) { ... }\<close> of \<^verbatim>\<open>goodix_esd_work\<close>; it returns the value of
  \<^verbatim>\<open>retries\<close> at the exit. \<^verbatim>\<open>retries\<close> is a C \<^verbatim>\<open>int\<close>, here a \<open>32 word\<close>.
  The two bytes of \<^verbatim>\<open>esd_data\<close> are those of \<open>rx 2\<close>, a list of length 2.
\<close>

function esd_retry_loop :: "goodix_ts_data \<Rightarrow> 32 word \<Rightarrow> world \<Rightarrow> 32 word \<times> world" where
  "esd_retry_loop ts retries w =
     (if retries - 1 = 0 then (retries - 1, w)
      else
        (case goodix_i2c_read (client_addr ts) GOODIX_REG_COMMAND 2 w of
           ((error, esd_data), w1) \<Rightarrow>
             if error \<noteq> 0 then esd_retry_loop ts (retries - 1) w1
             else if esd_data ! 0 \<noteq> GOODIX_CMD_ESD_ENABLED \<and>
                     esd_data ! 1 = GOODIX_CMD_ESD_ENABLED then
               (case goodix_i2c_write_u8 (client_addr ts) GOODIX_REG_COMMAND
                       GOODIX_CMD_ESD_ENABLED w1 of
                  (_, w2) \<Rightarrow> (retries - 1, w2))
             else esd_retry_loop ts (retries - 1) w1))"
  by pat_completeness auto
termination
  by (relation "measure (\<lambda>(ts, retries, w). unat (retries - 1))")
    (auto simp: measure_unat [of "r - 1" for r :: "32 word", simplified])

declare esd_retry_loop.simps [simp del]

definition goodix_esd_work :: "goodix_ts_data \<Rightarrow> world \<Rightarrow> world option" where
  "goodix_esd_work ts w =
     (case esd_retry_loop ts 3 (emit WaitForCompletion w) of
        (retries, w1) \<Rightarrow>
          if retries = 0 then
            (case goodix_reset ts (goodix_free_irq ts w1) of
               (_, w2) \<Rightarrow>
                 (case ext_call RequestFirmware w2 of
                    ((error, cfg), w3) \<Rightarrow>
                      (case (if error = 0 then
                               (case goodix_send_cfg ts cfg w3 of
                                  None \<Rightarrow> None
                                | Some (_, w4) \<Rightarrow> Some (emit ReleaseFirmware w4))
                             else Some w3) of
                         None \<Rightarrow> None
                       | Some w5 \<Rightarrow>
                           (case goodix_request_irq ts w5 of
                              (_, w6) \<Rightarrow>
                                (case goodix_enable_esd ts w6 of
                                   (_, w7) \<Rightarrow> Some w7)))))
          else Some (emit (ScheduleDelayedWork (esd_timeout ts)) w1))"

section \<open>Touch reports\<close>

definition get_unaligned_le16 :: "u8 list \<Rightarrow> int \<Rightarrow> u16 option" where
  "get_unaligned_le16 buf off =
     (case data_at buf off of
        None \<Rightarrow> None
      | Some lo \<Rightarrow>
          (case data_at buf (off + 1) of
             None \<Rightarrow> None
           | Some hi \<Rightarrow> Some (push_bit 8 (ucast hi) OR ucast lo)))"

text \<open>
  The first read fills 9 bytes, the second the next \<open>8 * (touch_num - 1)\<close>; the buffer
  returned is what has been read. The header \<open>data[0]\<close> is the first of the 9 bytes.
\<close>

definition goodix_ts_read_input_report ::
    "goodix_ts_data \<Rightarrow> world \<Rightarrow> (int \<times> u8 list) \<times> world" where
  "goodix_ts_read_input_report ts w =
     (case goodix_i2c_read (client_addr ts) GOODIX_READ_COOR_ADDR (GOODIX_CONTACT_SIZE + 1) w of
        ((error, data), w1) \<Rightarrow>
          if error \<noteq> 0 then ((error, data), w1)
          else if data ! 0 AND 0x80 = 0 then ((- EAGAIN, data), w1)
          else
            let touch_num = unat (data ! 0 AND 0x0f) in
            if touch_num > max_touch_num ts then ((- EPROTO, data), w1)
            else if touch_num > 1 then
              (case goodix_i2c_read (client_addr ts)
                      (GOODIX_READ_COOR_ADDR + 1 + of_nat GOODIX_CONTACT_SIZE)
                      (GOODIX_CONTACT_SIZE * (touch_num - 1)) w1 of
                 ((error, rest), w2) \<Rightarrow>
                   if error \<noteq> 0 then ((error, data @ rest), w2)
                   else ((int touch_num, data @ rest), w2))
            else ((int touch_num, data), w1))"

text \<open>\<open>coor_data\<close> is the pointer \<open>&buf[off]\<close>.\<close>

definition goodix_ts_report_touch ::
    "goodix_ts_data \<Rightarrow> u8 list \<Rightarrow> int \<Rightarrow> world \<Rightarrow> world option" where
  "goodix_ts_report_touch ts buf off w =
     (case data_at buf off of
        None \<Rightarrow> None
      | Some b0 \<Rightarrow>
     (case get_unaligned_le16 buf (off + 1) of
        None \<Rightarrow> None
      | Some x \<Rightarrow>
     (case get_unaligned_le16 buf (off + 3) of
        None \<Rightarrow> None
      | Some y \<Rightarrow>
     (case get_unaligned_le16 buf (off + 5) of
        None \<Rightarrow> None
      | Some wd \<Rightarrow>
          let idn = uint (b0 AND 0x0F);
              input_x = uint x;
              input_y = uint y;
              input_w = uint wd;
              input_x = (if inverted_x ts then abs_x_max ts - input_x else input_x);
              input_y = (if inverted_y ts then abs_y_max ts - input_y else input_y);
              (input_x, input_y) =
                (if swapped_x_y ts then (input_y, input_x) else (input_x, input_y))
          in Some (emit (InputReportAbs ABS_MT_WIDTH_MAJOR input_w)
                  (emit (InputReportAbs ABS_MT_TOUCH_MAJOR input_w)
                  (emit (InputReportAbs ABS_MT_POSITION_Y input_y)
                  (emit (InputReportAbs ABS_MT_POSITION_X input_x)
                  (emit (InputMtReportSlotState True)
                  (emit (InputMtSlot idn) w))))))))))"

fun report_loop :: "goodix_ts_data \<Rightarrow> u8 list \<Rightarrow> nat list \<Rightarrow> world \<Rightarrow> world option" where
  "report_loop ts buf [] w = Some w"
| "report_loop ts buf (i # rest) w =
     (case goodix_ts_report_touch ts buf (1 + int GOODIX_CONTACT_SIZE * int i) w of
        None \<Rightarrow> None
      | Some w1 \<Rightarrow> report_loop ts buf rest w1)"

text \<open>
  \<^verbatim>\<open>point_data\<close> has \<open>1 + 8 * 10\<close> bytes. A report that fills more has written past the
  array: undefined behaviour, \<open>None\<close>.
\<close>

definition goodix_process_events :: "goodix_ts_data \<Rightarrow> world \<Rightarrow> world option" where
  "goodix_process_events ts w =
     (case goodix_ts_read_input_report ts w of
        ((touch_num, point_data), w1) \<Rightarrow>
          if length point_data > 1 + GOODIX_CONTACT_SIZE * GOODIX_MAX_CONTACTS then None
          else if touch_num < 0 then Some w1
          else
            (case report_loop ts point_data [0..<nat touch_num] w1 of
               None \<Rightarrow> None
             | Some w2 \<Rightarrow> Some (emit InputSync (emit InputMtSyncFrame w2))))"

definition goodix_ts_irq_handler :: "goodix_ts_data \<Rightarrow> world \<Rightarrow> (irqreturn \<times> world) option" where
  "goodix_ts_irq_handler ts w =
     (case goodix_process_events ts w of
        None \<Rightarrow> None
      | Some w1 \<Rightarrow>
          (case goodix_i2c_write_u8 (client_addr ts) GOODIX_READ_COOR_ADDR 0 w1 of
             (_, w2) \<Rightarrow> Some (IRQ_HANDLED, w2)))"

section \<open>Panel capabilities\<close>

definition swap_abs_max :: "goodix_ts_data \<Rightarrow> goodix_ts_data" where
  "swap_abs_max ts = ts\<lparr>abs_x_max := abs_y_max ts, abs_y_max := abs_x_max ts\<rparr>"

definition use_defaults :: "goodix_ts_data \<Rightarrow> goodix_ts_data" where
  "use_defaults ts =
     (let ts1 = ts\<lparr>abs_x_max := GOODIX_MAX_WIDTH, abs_y_max := GOODIX_MAX_HEIGHT\<rparr>;
          ts2 = (if swapped_x_y ts1 then swap_abs_max ts1 else ts1)
      in ts2\<lparr>int_trigger_type := GOODIX_INT_TRIGGER, max_touch_num := GOODIX_MAX_CONTACTS\<rparr>)"

text \<open>
  \<open>use_defaults\<close> is the block the function has twice. \<^verbatim>\<open>config\<close> holds the
  \<^verbatim>\<open>cfg_len\<close> bytes read; a byte beyond them is uninitialised stack, \<open>None\<close>.
\<close>

definition goodix_read_config :: "goodix_ts_data \<Rightarrow> world \<Rightarrow> (goodix_ts_data \<times> world) option" where
  "goodix_read_config ts w =
     (case goodix_i2c_read (client_addr ts) GOODIX_REG_CONFIG_DATA (nat (cfg_len ts)) w of
        ((error, config), w1) \<Rightarrow>
          if error \<noteq> 0 then Some (use_defaults ts, w1)
          else
     (case get_unaligned_le16 config RESOLUTION_LOC of
        None \<Rightarrow> None
      | Some x \<Rightarrow>
     (case get_unaligned_le16 config (RESOLUTION_LOC + 2) of
        None \<Rightarrow> None
      | Some y \<Rightarrow>
     (case data_at config TRIGGER_LOC of
        None \<Rightarrow> None
      | Some t \<Rightarrow>
     (case data_at config MAX_CONTACTS_LOC of
        None \<Rightarrow> None
      | Some m \<Rightarrow>
          let ts1 = ts\<lparr>abs_x_max := uint x, abs_y_max := uint y\<rparr>;
              ts2 = (if swapped_x_y ts1 then swap_abs_max ts1 else ts1);
              ts3 = ts2\<lparr>int_trigger_type := unat (t AND 0x03),
                        max_touch_num := unat (m AND 0x0f)\<rparr>;
              ts4 = (if abs_x_max ts3 = 0 \<or> abs_y_max ts3 = 0 \<or> max_touch_num ts3 = 0
                     then use_defaults ts3 else ts3)
          in (case ext_call DmiCheckSystem w1 of
                ((found, _), w2) \<Rightarrow>
                  if found \<noteq> 0 then Some (ts4\<lparr>inverted_x := True, inverted_y := True\<rparr>, w2)
                  else Some (ts4, w2)))))))"

section \<open>Power and lifecycle\<close>

definition goodix_set_power_state :: "goodix_ts_data \<Rightarrow> bool \<Rightarrow> world \<Rightarrow> int \<times> world" where
  "goodix_set_power_state ts on w =
     (case (if on then ext_call PmGetSync w
            else ext_call PmPutAutosuspend (emit PmMarkLastBusy w)) of
        ((error, _), w1) \<Rightarrow>
          if error < 0 then (error, if on then emit PmPutNoidle w1 else w1)
          else (0, w1))"

definition goodix_open :: "goodix_ts_data \<Rightarrow> world \<Rightarrow> int \<times> goodix_ts_data \<times> world" where
  "goodix_open ts w =
     (if \<not> gpiod_int ts \<or> \<not> gpiod_rst ts then (0, ts, w)
      else
        (case goodix_set_power_state ts True (emit WaitForCompletion w) of
           (error, w1) \<Rightarrow>
             if error \<noteq> 0 then (error, ts, w1)
             else (0, ts\<lparr>open_count := open_count ts + 1\<rparr>, w1)))"

definition goodix_close :: "goodix_ts_data \<Rightarrow> world \<Rightarrow> goodix_ts_data \<times> world" where
  "goodix_close ts w =
     (if \<not> gpiod_int ts \<or> \<not> gpiod_rst ts then (ts, w)
      else
        (case goodix_set_power_state ts False w of
           (_, w1) \<Rightarrow> (ts\<lparr>open_count := open_count ts - 1\<rparr>, w1)))"

definition goodix_sleep :: "goodix_ts_data \<Rightarrow> world \<Rightarrow> int \<times> goodix_ts_data \<times> world" where
  "goodix_sleep ts w =
     (if \<not> gpiod_int ts \<or> \<not> gpiod_rst ts then (0, ts, w)
      else if suspended ts then
        (0, ts, emit MutexUnlock (emit MutexLock (emit WaitForCompletion w)))
      else
        (case set_int_output_val ts 0
                (goodix_free_irq ts (goodix_disable_esd ts
                   (emit MutexLock (emit WaitForCompletion w)))) of
           (error, w1) \<Rightarrow>
             if error \<noteq> 0 then
               (case goodix_request_irq ts w1 of
                  (_, w2) \<Rightarrow> (error, ts, emit MutexUnlock w2))
             else
               (case goodix_i2c_write_u8 (client_addr ts) GOODIX_REG_COMMAND
                       GOODIX_CMD_SCREEN_OFF (emit (UsleepRange 5000 6000) w1) of
                  (error, w2) \<Rightarrow>
                    if error \<noteq> 0 then
                      (case set_int_input ts w2 of
                         (_, w3) \<Rightarrow>
                           (case goodix_request_irq ts w3 of
                              (_, w4) \<Rightarrow> (- EAGAIN, ts, emit MutexUnlock w4)))
                    else
                      (0, ts\<lparr>suspended := True\<rparr>,
                       emit MutexUnlock (emit (Msleep 58) w2)))))"


section \<open>Example instances\<close>

text \<open>
  A GT911 at slave address 0x14 with both lines wired, as probe leaves it before the
  panel is configured, and a world that has seen no call yet.
\<close>

definition gt911 :: goodix_ts_data where
  "gt911 = \<lparr>client_addr = 0x14, abs_x_max = 0, abs_y_max = 0, swapped_x_y = False,
     inverted_x = False, inverted_y = False, max_touch_num = 0, int_trigger_type = 0,
     cfg_len = 186, substitute_i2c_address = 0, gpiod_int = True, gpiod_rst = True,
     id_num = 911, version = 0x100, esd_timeout = 2000, suspended = False, open_count = 0\<rparr>"

definition world_of :: "(nat \<Rightarrow> resp) \<Rightarrow> world" where
  "world_of f = \<lparr>replies = f, tick = 0, trace = []\<rparr>"

text \<open>
  A world in which INT is driven low and the message buffer is allocated, and the bus
  then refuses the next transfer with \<open>-EIO\<close>.
\<close>

definition screen_off_fails :: world where
  "screen_off_fails = world_of (\<lambda>n. (if n = 1 then 1 else if n = 2 then - 5 else 0, []))"

text \<open>
  Worlds for the panel read: the config registers answer with resolution 0xFFFF x 0xFFFF,
  10 contacts and trigger type 3; and with 1024 x 600, 5 contacts, falling edge.
\<close>

definition cfg_oversize :: world where
  "cfg_oversize = world_of (\<lambda>n. (if n = 0 then 2 else 0, [0, 0xFF, 0xFF, 0xFF, 0xFF, 0x0A, 0x03]))"

definition cfg_1024x600 :: world where
  "cfg_1024x600 = world_of (\<lambda>n. (if n = 0 then 2 else 0, [0, 0x00, 0x04, 0x58, 0x02, 0x05, 0x01]))"

text \<open>
  A world in which the first two bus transfers fail with \<open>-EIO\<close>, no firmware file is
  found (\<open>-ENOENT\<close>), and every other call succeeds: GPIO calls and the IRQ request
  return 0, the allocator a non-null pointer, the one-message transfer 1.
\<close>

definition esd_two_failures :: world where
  "esd_two_failures =
     world_of (\<lambda>n. (if n < 2 then - 5 else if n = 7 then - 2
                     else if n = 9 \<or> n = 10 then 1 else 0, []))"

text \<open>
  The same controller with its INT line behind an I2C expander at address 0x20. Worlds
  for the reset handshake: every call succeeds except the fifth, \<^verbatim>\<open>gpiod_direction_input\<close>,
  which returns \<open>-EBUSY\<close>; once with the expander answering each of its writes (calls 1,
  3 and 5) with 1, once for direct GPIO.
\<close>

definition gt911_expander :: goodix_ts_data where
  "gt911_expander = gt911\<lparr>substitute_i2c_address := 0x20\<rparr>"

definition int_input_fails :: world where
  "int_input_fails =
     world_of (\<lambda>n. (if n = 4 then - 16 else if n = 1 \<or> n = 3 \<or> n = 5 then 1 else 0, []))"

definition int_input_fails_direct :: world where
  "int_input_fails_direct = world_of (\<lambda>n. (if n = 4 then - 16 else 0, []))"

section \<open>Properties\<close>

text \<open>
  C8. The configuration length follows from the controller id: 911, 9271, 9110, 927 and
  928 give 186; 912 and 967 give 228; every other id gives 240.
\<close>

theorem goodix_get_cfg_len_table:
  "goodix_get_cfg_len i =
     (if i \<in> {911, 9271, 9110, 927, 928} then 186
      else if i \<in> {912, 967} then 228
      else 240)"
  by (simp add: goodix_get_cfg_len_def GOODIX_CONFIG_911_LENGTH_def
      GOODIX_CONFIG_967_LENGTH_def GOODIX_CONFIG_MAX_LENGTH_def)

subsection \<open>Configuration check\<close>

lemma check_sum_loop_sum:
  "0 \<le> i \<Longrightarrow> n \<le> int (length d) \<Longrightarrow>
   check_sum_loop d n i s = Some (s + sum_list (take (nat n - nat i) (drop (nat i) d)))"
proof (induction d n i s rule: check_sum_loop.induct)
  case (1 d n i s)
  show ?case
  proof (cases "i < n")
    case False
    then show ?thesis by (simp add: check_sum_loop.simps)
  next
    case True
    with "1.prems" have inb: "nat i < length d" by linarith
    have at: "data_at d i = Some (d ! nat i)"
      using "1.prems" True by (simp add: data_at_def)
    have step: "check_sum_loop d n (i + 1) (s + d ! nat i) =
        Some (s + d ! nat i + sum_list (take (nat n - nat (i + 1)) (drop (nat (i + 1)) d)))"
      using "1.IH" [OF True at] "1.prems" by simp
    have n1: "nat (i + 1) = Suc (nat i)" using "1.prems" by simp
    have n2: "nat n - nat i = Suc (nat n - Suc (nat i))" using True "1.prems" by linarith
    have dr: "drop (nat i) d = d ! nat i # drop (Suc (nat i)) d"
      using inb by (simp add: Cons_nth_drop_Suc)
    show ?thesis
      by (subst check_sum_loop.simps) (simp add: True at step n1 n2 dr add.assoc)
  qed
qed

lemma check_sum_loop_neg: "n \<le> 0 \<Longrightarrow> check_sum_loop d n 0 s = Some s"
  by (simp add: check_sum_loop.simps)

lemma goodix_check_cfg_short: "length cfg < 2 \<Longrightarrow> goodix_check_cfg cfg = None"
  by (simp add: goodix_check_cfg_def check_sum_loop_neg GOODIX_CONFIG_MAX_LENGTH_def data_at_def Let_def)

lemma goodix_check_cfg_long:
  assumes "2 \<le> length cfg"
  shows "goodix_check_cfg cfg =
     Some (if 240 < length cfg then - EINVAL
      else if - sum_list (take (length cfg - 2) cfg) \<noteq> cfg ! (length cfg - 2) then - EINVAL
      else if cfg ! (length cfg - 1) \<noteq> 1 then - EINVAL else 0)"
proof -
  have l: "check_sum_loop cfg (int (length cfg) - 2) 0 0 = Some (sum_list (take (length cfg - 2) cfg))"
    using check_sum_loop_sum [of 0 "int (length cfg) - 2" cfg 0] assms
    by (simp add: nat_diff_distrib')
  have a1: "data_at cfg (int (length cfg) - 2) = Some (cfg ! (length cfg - 2))"
    using assms by (simp add: data_at_def nat_diff_distrib')
  have a2: "data_at cfg (int (length cfg) - 2 + 1) = Some (cfg ! (length cfg - 1))"
    using assms by (auto simp add: data_at_def nat_diff_distrib' intro!: arg_cong [where f = "(!) cfg"])
  have neg: "NOT s + 1 = - s" for s :: u8
    by (simp add: minus_eq_not_plus_1)
  show ?thesis
    unfolding goodix_check_cfg_def l a1 a2 GOODIX_CONFIG_MAX_LENGTH_def Let_def neg
    by simp
qed

lemma take_last_two:
  assumes "2 \<le> length (cfg :: u8 list)"
  shows "sum_list (take (length cfg - 1) cfg) =
         sum_list (take (length cfg - 2) cfg) + cfg ! (length cfg - 2)"
proof -
  have "length cfg - 1 = Suc (length cfg - 2)" using assms by simp
  moreover have "length cfg - 2 < length cfg" using assms by simp
  ultimately show ?thesis by (simp add: take_Suc_conv_app_nth)
qed

text \<open>
  C3. \<^verbatim>\<open>goodix_check_cfg\<close> accepts a blob of length \<open>L\<close> exactly when \<open>L \<le> 240\<close>,
  the two's-complement checksum of the first \<open>L - 2\<close> bytes equals byte \<open>L - 2\<close>, and
  byte \<open>L - 1\<close> is 1 (bytes \<open>L - 2\<close> and \<open>L - 1\<close> exist: \<open>2 \<le> L\<close>). The checksum
  condition is the same as the first \<open>L - 1\<close> bytes summing to 0 modulo 256. When the
  check fails with an error, \<^verbatim>\<open>goodix_send_cfg\<close> returns that error and the world is
  untouched: no allocation, no bus write.
\<close>

theorem goodix_check_cfg_accepts:
  "(goodix_check_cfg cfg = Some 0) =
     (2 \<le> length cfg \<and> length cfg \<le> 240 \<and>
      - sum_list (take (length cfg - 2) cfg) = cfg ! (length cfg - 2) \<and>
      cfg ! (length cfg - 1) = 1)
   \<and> (2 \<le> length cfg \<longrightarrow>
        (- sum_list (take (length cfg - 2) cfg) = cfg ! (length cfg - 2)) =
        (sum_list (take (length cfg - 1) cfg) = 0))
   \<and> (goodix_check_cfg cfg = Some e \<and> e \<noteq> 0 \<longrightarrow> goodix_send_cfg ts cfg w = Some (e, w))"
proof (intro conjI impI)
  show "(goodix_check_cfg cfg = Some 0) =
     (2 \<le> length cfg \<and> length cfg \<le> 240 \<and>
      - sum_list (take (length cfg - 2) cfg) = cfg ! (length cfg - 2) \<and>
      cfg ! (length cfg - 1) = 1)"
  proof (cases "2 \<le> length cfg")
    case True
    then show ?thesis by (simp add: goodix_check_cfg_long EINVAL_def)
  next
    case False
    then show ?thesis by (simp add: goodix_check_cfg_short)
  qed
next
  assume "2 \<le> length cfg"
  then have "sum_list (take (length cfg - 1) cfg) =
      sum_list (take (length cfg - 2) cfg) + cfg ! (length cfg - 2)"
    by (rule take_last_two)
  then show "(- sum_list (take (length cfg - 2) cfg) = cfg ! (length cfg - 2)) =
        (sum_list (take (length cfg - 1) cfg) = 0)"
    by (simp only: neg_eq_iff_add_eq_0)
next
  assume "goodix_check_cfg cfg = Some e \<and> e \<noteq> 0"
  then show "goodix_send_cfg ts cfg w = Some (e, w)"
    by (simp add: goodix_send_cfg_def)
qed

theorem goodix_check_cfg_accepts_witness:
  "goodix_check_cfg [0, 1] = Some 0 \<and>
   sum_list (take (length [0, 1 :: u8] - 1) [0, 1 :: u8]) = 0 \<and>
   goodix_check_cfg [5, 1] = Some (- 22) \<and>
   goodix_send_cfg gt911 [5, 1] (world_of (\<lambda>n. (1, []))) = Some (- 22, world_of (\<lambda>n. (1, [])))"
proof -
  have bad: "goodix_check_cfg [5, 1] = Some (- 22)"
    using goodix_check_cfg_long [of "[5, 1]"] by (simp add: EINVAL_def)
  show ?thesis
    using goodix_check_cfg_accepts [of "[0, 1]" 0 gt911 "world_of (\<lambda>n. (1, []))"]
      goodix_check_cfg_accepts [of "[5, 1]" "- 22" gt911 "world_of (\<lambda>n. (1, []))"] bad
    by simp
qed

text \<open>
  C9. \<^verbatim>\<open>goodix_check_cfg\<close> needs a blob of at least 2 bytes: for length 0 or 1 the
  index \<^verbatim>\<open>cfg->size - 2\<close> is negative, the read of \<^verbatim>\<open>cfg->data[raw_cfg_len]\<close> is
  outside the blob and the function yields no verdict (\<open>None\<close>) instead of rejecting;
  from length 2 on it always yields one.
\<close>

theorem goodix_check_cfg_short_blob:
  "(goodix_check_cfg cfg = None) = (length cfg < 2) \<and>
   (data_at cfg (int (length cfg) - 2) = None) = (length cfg < 2)"
proof (cases "2 \<le> length cfg")
  case True
  then show ?thesis by (simp add: goodix_check_cfg_long data_at_def)
next
  case False
  then show ?thesis by (simp add: goodix_check_cfg_short data_at_def)
qed

subsection \<open>Touch reports and the interrupt handler\<close>

lemma data_at_in: "0 \<le> i \<Longrightarrow> i < int (length d) \<Longrightarrow> data_at d i = Some (d ! nat i)"
  by (simp add: data_at_def)

lemma get_unaligned_le16_in:
  "0 \<le> i \<Longrightarrow> i + 1 < int (length d) \<Longrightarrow>
   get_unaligned_le16 d i = Some (push_bit 8 (ucast (d ! nat (i + 1))) OR ucast (d ! nat i))"
  by (simp add: get_unaligned_le16_def data_at_in)

lemma uint_le16:
  "uint (push_bit 8 (ucast (hi :: u8)) OR ucast (lo :: u8) :: u16) = uint lo + 256 * uint hi"
proof -
  have "(push_bit 8 (ucast hi) OR ucast lo :: u16) = push_bit 8 (ucast hi) + ucast lo"
    by (rule disjunctive_add [symmetric]) (auto simp: bit_simps dest: bit_imp_le_length)
  moreover have "uint (ucast lo :: u16) = uint lo"
    by (simp add: uint_up_ucast is_up)
  moreover have "uint (push_bit 8 (ucast hi :: u16)) = 256 * uint hi"
  proof -
    have "uint hi < 256" using uint_bounded [of hi] by simp
    then show ?thesis
      by (simp add: uint_word_ariths push_bit_eq_mult uint_up_ucast is_up take_bit_eq_mod)
  qed
  moreover have "uint lo < 256" using uint_bounded [of lo] by simp
  moreover have "uint hi < 256" using uint_bounded [of hi] by simp
  ultimately show ?thesis
    by (simp add: uint_word_ariths)
qed


text \<open>
  C4. For a contact whose 8 bytes lie in the buffer, with raw coordinates \<open>(x, y)\<close> read
  little-endian from bytes 1..2 and 3..4, the coordinates reported to the input core are
  obtained by inverting first and swapping second: \<open>xi = inverted_x ? abs_x_max - x : x\<close>,
  \<open>yi = inverted_y ? abs_y_max - y : y\<close>, and the pair reported is \<open>(yi, xi)\<close> when
  \<open>swapped_x_y\<close> is set, else \<open>(xi, yi)\<close>.
\<close>

theorem goodix_ts_report_touch_transform:
  assumes "0 \<le> off" and "off + 7 \<le> int (length buf)"
  shows "goodix_ts_report_touch ts buf off w =
     (let x = uint (buf ! nat (off + 1)) + 256 * uint (buf ! nat (off + 2));
          y = uint (buf ! nat (off + 3)) + 256 * uint (buf ! nat (off + 4));
          wd = uint (buf ! nat (off + 5)) + 256 * uint (buf ! nat (off + 6));
          xi = (if inverted_x ts then abs_x_max ts - x else x);
          yi = (if inverted_y ts then abs_y_max ts - y else y);
          (x', y') = (if swapped_x_y ts then (yi, xi) else (xi, yi))
      in Some (w\<lparr>trace := trace w @
           [InputMtSlot (uint (buf ! nat off AND 0x0F)), InputMtReportSlotState True,
            InputReportAbs ABS_MT_POSITION_X x', InputReportAbs ABS_MT_POSITION_Y y',
            InputReportAbs ABS_MT_TOUCH_MAJOR wd, InputReportAbs ABS_MT_WIDTH_MAJOR wd]\<rparr>))"
proof -
  have 0: "data_at buf off = Some (buf ! nat off)"
    using assms by (simp add: data_at_in)
  have 1: "get_unaligned_le16 buf (off + 1) =
      Some (push_bit 8 (ucast (buf ! nat (off + 2))) OR ucast (buf ! nat (off + 1)))"
    using assms get_unaligned_le16_in [of "off + 1" buf] by (simp add: add.commute)
  have 3: "get_unaligned_le16 buf (off + 3) =
      Some (push_bit 8 (ucast (buf ! nat (off + 4))) OR ucast (buf ! nat (off + 3)))"
    using assms get_unaligned_le16_in [of "off + 3" buf] by (simp add: add.commute)
  have 5: "get_unaligned_le16 buf (off + 5) =
      Some (push_bit 8 (ucast (buf ! nat (off + 6))) OR ucast (buf ! nat (off + 5)))"
    using assms get_unaligned_le16_in [of "off + 5" buf] by (simp add: add.commute)
  show ?thesis
    unfolding goodix_ts_report_touch_def 0 1 3 5
    by (simp add: uint_le16 emit_def Let_def)
qed

theorem goodix_ts_report_touch_transform_witness:
  "goodix_ts_report_touch
     (gt911\<lparr>abs_x_max := 4096, abs_y_max := 4096, inverted_x := True, inverted_y := True\<rparr>)
     [0x81, 3, 10, 0, 20, 0, 5, 0, 0] 1 (world_of (\<lambda>n. (0, []))) =
   Some (world_of (\<lambda>n. (0, []))\<lparr>trace :=
     [InputMtSlot 3, InputMtReportSlotState True,
      InputReportAbs ABS_MT_POSITION_X 4086, InputReportAbs ABS_MT_POSITION_Y 4076,
      InputReportAbs ABS_MT_TOUCH_MAJOR 5, InputReportAbs ABS_MT_WIDTH_MAJOR 5]\<rparr>)"
  using goodix_ts_report_touch_transform [of 1 "[0x81, 3, 10, 0, 20, 0, 5, 0, 0]"
      "gt911\<lparr>abs_x_max := 4096, abs_y_max := 4096, inverted_x := True, inverted_y := True\<rparr>"
      "world_of (\<lambda>n. (0, []))"]
  by (simp add: gt911_def world_of_def)

lemma reg_coor_bytes: "reg_hi GOODIX_READ_COOR_ADDR = 0x81" "reg_lo GOODIX_READ_COOR_ADDR = 0x4E"
  by (simp_all add: reg_hi_def reg_lo_def GOODIX_READ_COOR_ADDR_def)

lemma length_rx: "length (rx n bs) = n"
  by (simp add: rx_def)

text \<open>
  C5. When the report read succeeds and the header has bit 7 clear (\<open>-EAGAIN\<close>) or its
  contact count \<open>header & 0x0F\<close> exceeds \<open>max_touch_num\<close> (\<open>-EPROTO\<close>), the interrupt
  handler reports nothing to the input core, still calls the write of 0 to register
  0x814E, and returns \<open>IRQ_HANDLED\<close>. The calls it makes are the report read, the
  allocation of the 3-byte message and, unless that allocation fails, the bus write of
  \<open>81 4E 00\<close>.
\<close>

theorem goodix_ts_irq_handler_drops_bad_frame:
  assumes "replies w (tick w) = (2, bs)"
    and "rx 9 bs ! 0 AND 0x80 = 0 \<or> max_touch_num ts < unat (rx 9 bs ! 0 AND 0x0f)"
  shows "goodix_ts_irq_handler ts w =
     Some (IRQ_HANDLED,
       snd (goodix_i2c_write_u8 (client_addr ts) 0x814E 0
         (w\<lparr>tick := tick w + 1, trace := trace w @ [I2cRead (client_addr ts) 0x814E 9]\<rparr>)))
   \<and> fst (fst (goodix_ts_read_input_report ts w)) =
        (if rx 9 bs ! 0 AND 0x80 = 0 then - EAGAIN else - EPROTO)
   \<and> map_option (\<lambda>r. (fst r, trace (snd r))) (goodix_ts_irq_handler ts w) =
       Some (IRQ_HANDLED,
         trace w @ [I2cRead (client_addr ts) 0x814E 9, Kmalloc 3] @
          (if fst (replies w (tick w + 1)) = 0 then []
           else [I2cWrite (client_addr ts) [0x81, 0x4E, 0], Kfree]))"
proof -
  let ?w1 = "w\<lparr>tick := tick w + 1, trace := trace w @ [I2cRead (client_addr ts) 0x814E 9]\<rparr>"
  have rd: "goodix_i2c_read (client_addr ts) GOODIX_READ_COOR_ADDR 9 w = ((0, rx 9 bs), ?w1)"
    using assms(1)
    by (simp add: goodix_i2c_read_def ext_call_def xfer_status_def GOODIX_READ_COOR_ADDR_def)
  have rep: "goodix_ts_read_input_report ts w =
      ((if rx 9 bs ! 0 AND 0x80 = 0 then - EAGAIN else - EPROTO, rx 9 bs), ?w1)"
    using assms(2)
    by (auto simp add: goodix_ts_read_input_report_def GOODIX_CONTACT_SIZE_def rd Let_def)
  have neg: "(if rx 9 bs ! 0 AND 0x80 = 0 then - EAGAIN else - EPROTO) < 0"
    by (simp add: EAGAIN_def EPROTO_def)
  have pe: "goodix_process_events ts w = Some ?w1"
    using neg
    by (simp add: goodix_process_events_def rep length_rx GOODIX_CONTACT_SIZE_def
        GOODIX_MAX_CONTACTS_def del: One_nat_def)
  have h: "goodix_ts_irq_handler ts w =
     Some (IRQ_HANDLED, snd (goodix_i2c_write_u8 (client_addr ts) 0x814E 0 ?w1))"
    by (simp add: goodix_ts_irq_handler_def pe GOODIX_READ_COOR_ADDR_def split: prod.split)
  have tr: "trace (snd (goodix_i2c_write_u8 (client_addr ts) 0x814E 0 ?w1)) =
      trace w @ [I2cRead (client_addr ts) 0x814E 9, Kmalloc 3] @
          (if fst (replies w (tick w + 1)) = 0 then []
           else [I2cWrite (client_addr ts) [0x81, 0x4E, 0], Kfree])"
    using reg_coor_bytes
    by (simp add: goodix_i2c_write_u8_def goodix_i2c_write_def ext_call_def emit_def
        GOODIX_READ_COOR_ADDR_def split: prod.split)
  show ?thesis
    using h tr rep by simp
qed

theorem goodix_ts_irq_handler_drops_bad_frame_witness:
  "fst (fst (goodix_ts_read_input_report (gt911\<lparr>max_touch_num := 10\<rparr>)
      (world_of (\<lambda>n. (if n = 0 then 2 else 1, [0x8B]))))) = - EPROTO
   \<and> map_option (\<lambda>r. (fst r, trace (snd r)))
        (goodix_ts_irq_handler (gt911\<lparr>max_touch_num := 10\<rparr>)
          (world_of (\<lambda>n. (if n = 0 then 2 else 1, [0x8B])))) =
       Some (IRQ_HANDLED,
         [I2cRead 0x14 0x814E 9, Kmalloc 3, I2cWrite 0x14 [0x81, 0x4E, 0], Kfree])"
  using goodix_ts_irq_handler_drops_bad_frame [of
      "world_of (\<lambda>n. (if n = 0 then 2 else 1, [0x8B]))" "[0x8B]" "gt911\<lparr>max_touch_num := 10\<rparr>"]
  by (auto simp add: gt911_def world_of_def rx_def)

subsection \<open>GPIO lines, open and close\<close>

lemma tick_offsets:
  "n + 3 = Suc (Suc (Suc n))"
  "n + 4 = Suc (Suc (Suc (Suc n)))"
  "n + 5 = Suc (Suc (Suc (Suc (Suc n))))"
  by simp_all

lemma set_reset_output_val_eq:
  "set_reset_output_val ts v w =
     (fst (replies w (tick w)),
      w\<lparr>tick := tick w + 1, trace := trace w @ [GpioOut GPIO_RST v]\<rparr>)"
  by (simp add: set_reset_output_val_def ext_call_def split: prod.split)

lemma set_int_output_val_eq:
  "set_int_output_val ts v w =
     (if substitute_i2c_address ts \<noteq> 0 then xfer_status (fst (replies w (tick w))) 1
      else fst (replies w (tick w)),
      w\<lparr>tick := tick w + 1, trace := trace w @
        [if substitute_i2c_address ts \<noteq> 0
         then I2cWrite (word_of_int (substitute_i2c_address ts)) [0x1d, if v \<noteq> 0 then 9 else 1]
         else GpioOut GPIO_INT v]\<rparr>)"
  by (simp add: set_int_output_val_def ext_call_def split: prod.split)

lemma set_int_input_eq:
  "set_int_input ts w =
     (if substitute_i2c_address ts \<noteq> 0 then
        (xfer_status (fst (replies w (tick w + 1))) 1,
         w\<lparr>tick := tick w + 2, trace := trace w @
           [GpioIn GPIO_INT, I2cWrite (word_of_int (substitute_i2c_address ts)) [0x1d, 3]]\<rparr>)
      else
        (fst (replies w (tick w)),
         w\<lparr>tick := tick w + 1, trace := trace w @ [GpioIn GPIO_INT]\<rparr>))"
  by (simp add: set_int_input_def ext_call_def split: prod.split)

text \<open>
  C10. \<^verbatim>\<open>goodix_open\<close> increments \<open>open_count\<close> only after the power-on request
  succeeded: when \<^verbatim>\<open>pm_runtime_get_sync\<close> returns a negative value, open returns it and
  leaves the instance as it was. When either GPIO descriptor is absent, open returns 0 and
  close returns at once, neither making a call or changing \<open>open_count\<close>.
\<close>

theorem goodix_open_close_count:
  "(\<not> (gpiod_int ts \<and> gpiod_rst ts) \<longrightarrow>
      goodix_open ts w = (0, ts, w) \<and> goodix_close ts w = (ts, w))
   \<and> (gpiod_int ts \<and> gpiod_rst ts \<longrightarrow>
      goodix_open ts w =
        (let e = fst (replies w (tick w)) in
         if e < 0 then
           (e, ts, w\<lparr>tick := tick w + 1,
                      trace := trace w @ [WaitForCompletion, PmGetSync, PmPutNoidle]\<rparr>)
         else
           (0, ts\<lparr>open_count := open_count ts + 1\<rparr>,
            w\<lparr>tick := tick w + 1, trace := trace w @ [WaitForCompletion, PmGetSync]\<rparr>)))"
  by (auto simp add: goodix_open_def goodix_close_def goodix_set_power_state_def ext_call_def
      emit_def Let_def split: prod.split)

theorem goodix_open_close_count_witness:
  "goodix_open gt911 (world_of (\<lambda>n. (- 5, []))) =
     (- 5, gt911, world_of (\<lambda>n. (- 5, []))\<lparr>tick := 1,
        trace := [WaitForCompletion, PmGetSync, PmPutNoidle]\<rparr>)
   \<and> goodix_open (gt911\<lparr>gpiod_rst := False\<rparr>) (world_of (\<lambda>n. (- 5, []))) =
     (0, gt911\<lparr>gpiod_rst := False\<rparr>, world_of (\<lambda>n. (- 5, [])))
   \<and> goodix_close (gt911\<lparr>gpiod_rst := False\<rparr>) (world_of (\<lambda>n. (- 5, []))) =
     (gt911\<lparr>gpiod_rst := False\<rparr>, world_of (\<lambda>n. (- 5, [])))"
  using goodix_open_close_count [of gt911 "world_of (\<lambda>n. (- 5, []))"]
    goodix_open_close_count [of "gt911\<lparr>gpiod_rst := False\<rparr>" "world_of (\<lambda>n. (- 5, []))"]
  by (simp add: gt911_def world_of_def)

subsection \<open>Reset handshake\<close>

text \<open>
  The calls of the reset handshake, for every world: reset low; after 20 ms INT is driven
  to 1 exactly when the slave address is 0x14, else to 0 (through the expander when a
  substitute address is set: 9 for high, 1 for low); reset is released; INT is driven
  low, held for 50 ms and switched to input. The sequence ends at the first sub-step
  whose status is not 0. With a substitute address the status of the last sub-step is
  that of the expander write alone: the reply to \<^verbatim>\<open>gpiod_direction_input\<close> (call 4)
  does not enter it.
\<close>

lemma goodix_reset_trace:
  "(let r = (\<lambda>k. fst (replies w (tick w + k)));
        sub = (substitute_i2c_address ts \<noteq> 0);
        int_out = (\<lambda>v. if sub then I2cWrite (word_of_int (substitute_i2c_address ts))
                                     [0x1d, if v then 9 else 1]
                        else GpioOut GPIO_INT (if v then 1 else 0));
        int_in = GpioIn GPIO_INT #
                 (if sub then [I2cWrite (word_of_int (substitute_i2c_address ts)) [0x1d, 3]]
                  else []);
        e1 = r 0;
        e2 = (if sub then xfer_status (r 1) 1 else r 1);
        e3 = r 2;
        e4 = (if sub then xfer_status (r 3) 1 else r 3);
        e5 = (if sub then xfer_status (r 5) 1 else r 4)
    in fst (goodix_reset ts w) =
         (if e1 \<noteq> 0 then e1 else if e2 \<noteq> 0 then e2 else if e3 \<noteq> 0 then e3
          else if e4 \<noteq> 0 then e4 else e5)
     \<and> trace (snd (goodix_reset ts w)) =
         trace w @ [GpioOut GPIO_RST 0] @
         (if e1 \<noteq> 0 then [] else
            [Msleep 20, int_out (client_addr ts = 0x14)] @
         (if e2 \<noteq> 0 then [] else
            [UsleepRange 100 2000, GpioOut GPIO_RST 1] @
         (if e3 \<noteq> 0 then [] else
            [UsleepRange 6000 10000, int_out False] @
         (if e4 \<noteq> 0 then [] else
            Msleep 50 # int_in)))))"
proof (cases "substitute_i2c_address ts = 0")
  case True
  then show ?thesis
    by (simp add: goodix_reset_def goodix_int_sync_def set_reset_output_val_eq
      set_int_output_val_eq set_int_input_eq emit_def Let_def tick_offsets)
next
  case False
  then show ?thesis
    by (simp add: goodix_reset_def goodix_int_sync_def set_reset_output_val_eq
      set_int_output_val_eq set_int_input_eq emit_def Let_def tick_offsets)
qed

lemma gt911_expander_fields:
  "substitute_i2c_address gt911_expander = 0x20" "client_addr gt911_expander = 0x14"
  by (simp_all add: gt911_expander_def gt911_def)

lemma gt911_direct_fields:
  "substitute_i2c_address gt911 = 0" "client_addr gt911 = 0x14"
  by (simp_all add: gt911_def)

text \<open>
  C6 (the code at a failing input). With a substitute address, \<^verbatim>\<open>set_int_input\<close> stores
  the result of \<^verbatim>\<open>gpiod_direction_input\<close> and then overwrites it with the status of the
  expander write. When switching INT to input fails with \<open>-EBUSY\<close> and the expander
  write succeeds, the handshake runs to its end and returns 0: the sub-step's error is
  not returned. On direct GPIO the same failure is returned. A failed expander write is
  returned too: a transfer of 0 messages while driving INT ends the handshake there with
  \<open>-EIO\<close>.
\<close>

theorem goodix_reset_swallows_input_error:
  "fst (replies int_input_fails 4) = - 16
   \<and> fst (goodix_reset gt911_expander int_input_fails) = 0
   \<and> trace (snd (goodix_reset gt911_expander int_input_fails)) =
       [GpioOut GPIO_RST 0, Msleep 20, I2cWrite 0x20 [0x1d, 9], UsleepRange 100 2000,
        GpioOut GPIO_RST 1, UsleepRange 6000 10000, I2cWrite 0x20 [0x1d, 1], Msleep 50,
        GpioIn GPIO_INT, I2cWrite 0x20 [0x1d, 3]]
   \<and> fst (goodix_reset gt911 int_input_fails_direct) = - 16
   \<and> trace (snd (goodix_reset gt911 int_input_fails_direct)) =
       [GpioOut GPIO_RST 0, Msleep 20, GpioOut GPIO_INT 1, UsleepRange 100 2000,
        GpioOut GPIO_RST 1, UsleepRange 6000 10000, GpioOut GPIO_INT 0, Msleep 50,
        GpioIn GPIO_INT]
   \<and> fst (goodix_reset gt911_expander (world_of (\<lambda>n. (0, [])))) = - 5
   \<and> trace (snd (goodix_reset gt911_expander (world_of (\<lambda>n. (0, []))))) =
       [GpioOut GPIO_RST 0, Msleep 20, I2cWrite 0x20 [0x1d, 9]]"
  by (simp add: goodix_reset_def goodix_int_sync_def set_reset_output_val_eq
      set_int_output_val_eq set_int_input_eq emit_def gt911_expander_fields
      gt911_direct_fields int_input_fails_def int_input_fails_direct_def world_of_def
      xfer_status_def EIO_def)

subsection \<open>Sleep\<close>

lemma goodix_i2c_write_u8_eq:
  "goodix_i2c_write_u8 a reg v w =
     (if fst (replies w (tick w)) = 0 then
        (- ENOMEM, w\<lparr>tick := tick w + 1, trace := trace w @ [Kmalloc 3]\<rparr>)
      else
        (xfer_status (fst (replies w (tick w + 1))) 1,
         w\<lparr>tick := tick w + 2, trace := trace w @
           [Kmalloc 3, I2cWrite a [reg_hi reg, reg_lo reg, v], Kfree]\<rparr>))"
  by (simp add: goodix_i2c_write_u8_def goodix_i2c_write_def ext_call_def emit_def
      split: prod.split)

lemma goodix_request_irq_eq:
  "goodix_request_irq ts w =
     (fst (replies w (tick w)), w\<lparr>tick := tick w + 1, trace := trace w @ [RequestIrq]\<rparr>)"
  by (simp add: goodix_request_irq_def ext_call_def split: prod.split)

lemma reg_command_bytes: "reg_hi GOODIX_REG_COMMAND = 0x80" "reg_lo GOODIX_REG_COMMAND = 0x40"
  by (simp_all add: reg_hi_def reg_lo_def GOODIX_REG_COMMAND_def)

lemma goodix_sleep_unfold:
  assumes "gpiod_int ts" and "gpiod_rst ts" and "\<not> suspended ts"
  shows "goodix_sleep ts w =
     (case set_int_output_val ts 0
                (goodix_free_irq ts (goodix_disable_esd ts
                   (emit MutexLock (emit WaitForCompletion w)))) of
           (error, w1) \<Rightarrow>
             if error \<noteq> 0 then
               (case goodix_request_irq ts w1 of
                  (_, w2) \<Rightarrow> (error, ts, emit MutexUnlock w2))
             else
               (case goodix_i2c_write_u8 (client_addr ts) GOODIX_REG_COMMAND
                       GOODIX_CMD_SCREEN_OFF (emit (UsleepRange 5000 6000) w1) of
                  (error, w2) \<Rightarrow>
                    if error \<noteq> 0 then
                      (case set_int_input ts w2 of
                         (_, w3) \<Rightarrow>
                           (case goodix_request_irq ts w3 of
                              (_, w4) \<Rightarrow> (- EAGAIN, ts, emit MutexUnlock w4)))
                    else
                      (0, ts\<lparr>suspended := True\<rparr>,
                       emit MutexUnlock (emit (Msleep 58) w2))))"
  using assms by (simp add: goodix_sleep_def)

lemma pre_world:
  "goodix_free_irq ts (goodix_disable_esd ts (emit MutexLock (emit WaitForCompletion w))) =
     w\<lparr>trace := trace w @ [WaitForCompletion, MutexLock] @
        (if esd_timeout ts = 0 then [] else [CancelDelayedWorkSync]) @ [FreeIrq]\<rparr>"
  by (simp add: goodix_free_irq_def goodix_disable_esd_def emit_def)

text \<open>
  C7 (as the code has it). With both lines present and the device not suspended,
  \<^verbatim>\<open>goodix_sleep\<close> frees the IRQ and then: when INT cannot be driven low it requests the
  IRQ again and returns that error; when the screen-off write fails it switches INT back
  to input, requests the IRQ again and returns \<open>-EAGAIN\<close>, whatever the write's error
  was; in both cases \<open>suspended\<close> stays false. On success it waits 58 ms and sets
  \<open>suspended\<close>.
\<close>

theorem goodix_sleep_outcomes:
  assumes "gpiod_int ts" and "gpiod_rst ts" and "\<not> suspended ts"
  shows
  "(let r = (\<lambda>k. fst (replies w (tick w + k)));
        sub = (substitute_i2c_address ts \<noteq> 0);
        e1 = (if sub then xfer_status (r 0) 1 else r 0);
        e2 = (if r 1 = 0 then - ENOMEM else xfer_status (r 2) 1);
        pre = [WaitForCompletion, MutexLock] @
              (if esd_timeout ts = 0 then [] else [CancelDelayedWorkSync]) @
              [FreeIrq,
               if sub then I2cWrite (word_of_int (substitute_i2c_address ts)) [0x1d, 1]
               else GpioOut GPIO_INT 0];
        cmd = [UsleepRange 5000 6000, Kmalloc 3] @
              (if r 1 = 0 then []
               else [I2cWrite (client_addr ts) [0x80, 0x40, 0x05], Kfree]);
        int_in = GpioIn GPIO_INT #
                 (if sub then [I2cWrite (word_of_int (substitute_i2c_address ts)) [0x1d, 3]]
                  else [])
    in fst (goodix_sleep ts w) = (if e1 \<noteq> 0 then e1 else if e2 \<noteq> 0 then - EAGAIN else 0)
     \<and> fst (snd (goodix_sleep ts w)) =
         (if e1 = 0 \<and> e2 = 0 then ts\<lparr>suspended := True\<rparr> else ts)
     \<and> trace (snd (snd (goodix_sleep ts w))) =
         trace w @ pre @
         (if e1 \<noteq> 0 then [RequestIrq, MutexUnlock]
          else cmd @
            (if e2 \<noteq> 0 then int_in @ [RequestIrq, MutexUnlock]
             else [Msleep 58, MutexUnlock])))"
proof -
  let ?w0 = "w\<lparr>trace := trace w @ [WaitForCompletion, MutexLock] @
        (if esd_timeout ts = 0 then [] else [CancelDelayedWorkSync]) @ [FreeIrq]\<rparr>"
  note u = goodix_sleep_unfold [OF assms, of w, unfolded pre_world]
  show ?thesis
  proof (cases "(if substitute_i2c_address ts \<noteq> 0
                 then xfer_status (fst (replies w (tick w))) 1
                 else fst (replies w (tick w))) = 0")
    case False
    then show ?thesis
      unfolding u
      by (simp add: set_int_output_val_eq goodix_request_irq_eq emit_def Let_def split: if_splits)
  next
    case e1: True
    show ?thesis
    proof (cases "fst (replies w (Suc (tick w))) = 0")
      case True
      with e1 show ?thesis
        unfolding u
        by (simp add: set_int_output_val_eq set_int_input_eq goodix_i2c_write_u8_eq
            goodix_request_irq_eq emit_def Let_def ENOMEM_def split: if_splits)
    next
      case r1: False
      show ?thesis
      proof (cases "xfer_status (fst (replies w (Suc (Suc (tick w))))) 1 = 0")
        case True
        with e1 r1 show ?thesis
          unfolding u
          by (simp add: set_int_output_val_eq goodix_i2c_write_u8_eq reg_command_bytes
              emit_def Let_def GOODIX_CMD_SCREEN_OFF_def split: if_splits)
      next
        case False
        with e1 r1 show ?thesis
          unfolding u
          by (simp add: set_int_output_val_eq set_int_input_eq goodix_i2c_write_u8_eq
              goodix_request_irq_eq reg_command_bytes emit_def Let_def
              GOODIX_CMD_SCREEN_OFF_def split: if_splits)
      qed
    qed
  qed
qed

lemma gt911_fields:
  "gpiod_int gt911" "gpiod_rst gt911" "\<not> suspended gt911"
  "substitute_i2c_address gt911 = 0" "client_addr gt911 = 0x14" "esd_timeout gt911 = 2000"
  by (simp_all add: gt911_def)

theorem goodix_sleep_outcomes_witness:
  "fst (goodix_sleep gt911 screen_off_fails) = - EAGAIN
   \<and> fst (snd (goodix_sleep gt911 screen_off_fails)) = gt911
   \<and> trace (snd (snd (goodix_sleep gt911 screen_off_fails))) =
       [WaitForCompletion, MutexLock, CancelDelayedWorkSync, FreeIrq, GpioOut GPIO_INT 0,
        UsleepRange 5000 6000, Kmalloc 3, I2cWrite 0x14 [0x80, 0x40, 0x05], Kfree,
        GpioIn GPIO_INT, RequestIrq, MutexUnlock]
   \<and> fst (goodix_sleep gt911 (world_of (\<lambda>n. (- 16, [])))) = - 16
   \<and> fst (snd (goodix_sleep gt911 (world_of (\<lambda>n. (if n = 0 then 0 else 1, []))))) =
       gt911\<lparr>suspended := True\<rparr>"
proof -
  note f = gt911_fields(1-3)
  show ?thesis
    using goodix_sleep_outcomes [OF f, of screen_off_fails]
      goodix_sleep_outcomes [OF f, of "world_of (\<lambda>n. (- 16, []))"]
      goodix_sleep_outcomes [OF f, of "world_of (\<lambda>n. (if n = 0 then 0 else 1, []))"]
    by (simp add: gt911_fields world_of_def screen_off_fails_def xfer_status_def Let_def EIO_def)
qed

text \<open>
  The screen-off write fails with \<open>-EIO\<close>; \<^verbatim>\<open>goodix_sleep\<close> returns \<open>-EAGAIN\<close>, not the
  error of the write.
\<close>

theorem goodix_sleep_error_counterexample:
  "fst (goodix_i2c_write_u8 (client_addr gt911) GOODIX_REG_COMMAND GOODIX_CMD_SCREEN_OFF
          (screen_off_fails\<lparr>tick := 1\<rparr>)) = - EIO
   \<and> fst (goodix_sleep gt911 screen_off_fails) = - EAGAIN
   \<and> fst (goodix_sleep gt911 screen_off_fails) \<noteq> - EIO"
proof -
  have a: "fst (goodix_i2c_write_u8 (client_addr gt911) GOODIX_REG_COMMAND GOODIX_CMD_SCREEN_OFF
          (screen_off_fails\<lparr>tick := 1\<rparr>)) = - EIO"
    by (simp add: goodix_i2c_write_u8_eq world_of_def screen_off_fails_def xfer_status_def EIO_def)
  have b: "fst (goodix_sleep gt911 screen_off_fails) = - EAGAIN"
    unfolding goodix_sleep_unfold [OF gt911_fields(1-3)] pre_world
    by (simp add: set_int_output_val_eq set_int_input_eq goodix_i2c_write_u8_eq
        goodix_request_irq_eq emit_def gt911_fields world_of_def screen_off_fails_def
        xfer_status_def)
  show ?thesis using a b by (simp add: EIO_def EAGAIN_def)
qed

subsection \<open>Panel capabilities\<close>

lemma use_defaults_fields:
  "abs_x_max (use_defaults ts) = 4096" "abs_y_max (use_defaults ts) = 4096"
  "max_touch_num (use_defaults ts) = 10" "int_trigger_type (use_defaults ts) = 1"
  by (simp_all add: use_defaults_def swap_abs_max_def Let_def GOODIX_MAX_WIDTH_def
      GOODIX_MAX_HEIGHT_def GOODIX_MAX_CONTACTS_def GOODIX_INT_TRIGGER_def)

lemma goodix_get_cfg_len_ge: "7 \<le> goodix_get_cfg_len i"
  by (simp add: goodix_get_cfg_len_def GOODIX_CONFIG_911_LENGTH_def
      GOODIX_CONFIG_967_LENGTH_def GOODIX_CONFIG_MAX_LENGTH_def)

lemma unat_and_3: "unat (t AND 3 :: u8) \<le> 3"
  using word_and_le1 [of t 3, THEN word_le_nat_alt [THEN iffD1]] by simp

lemma uint_u16_le: "uint (x :: u16) \<le> 65535"
  using uint_bounded [of x] by simp

lemma goodix_read_config_cases:
  assumes "7 \<le> cfg_len ts" and "replies w (tick w) = (ret, bs)"
  shows "\<exists>ts' w'. goodix_read_config ts w = Some (ts', w') \<and>
     1 \<le> abs_x_max ts' \<and> abs_x_max ts' \<le> 65535 \<and>
     1 \<le> abs_y_max ts' \<and> abs_y_max ts' \<le> 65535 \<and>
     1 \<le> max_touch_num ts' \<and> int_trigger_type ts' \<le> 3 \<and>
     (xfer_status ret 2 \<noteq> 0 \<or>
      get_unaligned_le16 (rx (nat (cfg_len ts)) bs) 1 = Some 0 \<or>
      get_unaligned_le16 (rx (nat (cfg_len ts)) bs) 3 = Some 0 \<or>
      rx (nat (cfg_len ts)) bs ! 5 AND 0x0f = 0 \<longrightarrow>
        abs_x_max ts' = 4096 \<and> abs_y_max ts' = 4096 \<and>
        max_touch_num ts' = 10 \<and> int_trigger_type ts' = 1)"
proof -
  let ?c = "rx (nat (cfg_len ts)) bs"
  let ?w1 = "w\<lparr>tick := tick w + 1, trace := trace w @
      [I2cRead (client_addr ts) GOODIX_REG_CONFIG_DATA (nat (cfg_len ts))]\<rparr>"
  have len: "int (length ?c) = cfg_len ts" using assms(1) by (simp add: length_rx)
  have rd: "goodix_i2c_read (client_addr ts) GOODIX_REG_CONFIG_DATA (nat (cfg_len ts)) w =
      ((xfer_status ret 2, ?c), ?w1)"
    using assms(2) by (simp add: goodix_i2c_read_def ext_call_def)
  obtain x where x: "get_unaligned_le16 ?c 1 = Some x"
    using get_unaligned_le16_in [of 1 ?c] len assms(1) by simp
  obtain y where y: "get_unaligned_le16 ?c 3 = Some y"
    using get_unaligned_le16_in [of 3 ?c] len assms(1) by simp
  have t: "data_at ?c 6 = Some (?c ! 6)"
    using data_at_in [of 6 ?c] len assms(1) by simp
  have m: "data_at ?c 5 = Some (?c ! 5)"
    using data_at_in [of 5 ?c] len assms(1) by simp
  show ?thesis
  proof (cases "xfer_status ret 2 = 0")
    case False
    then show ?thesis
      by (simp add: goodix_read_config_def rd use_defaults_fields)
  next
    case True
    have zx: "(uint x = 0) = (x = 0)" by (simp add: uint_0_iff)
    have zy: "(uint y = 0) = (y = 0)" by (simp add: uint_0_iff)
    have zm: "(unat (?c ! 5 AND 0x0f) = 0) = (?c ! 5 AND 0x0f = 0)" by (simp add: unat_eq_0)
    have px: "x \<noteq> 0 \<Longrightarrow> 1 \<le> uint x" using zx uint_ge_0 [of x] by linarith
    have py: "y \<noteq> 0 \<Longrightarrow> 1 \<le> uint y" using zy uint_ge_0 [of y] by linarith
    have pm: "?c ! 5 AND 0x0f \<noteq> 0 \<Longrightarrow> Suc 0 \<le> unat (?c ! 5 AND 0x0f)"
      using zm by linarith
    show ?thesis
      using True px py pm uint_u16_le [of x] uint_u16_le [of y] unat_and_3 [of "?c ! 6"]
      by (auto simp add: goodix_read_config_def rd x y t m RESOLUTION_LOC_def TRIGGER_LOC_def
          MAX_CONTACTS_LOC_def Let_def ext_call_def swap_abs_max_def use_defaults_fields zx zy zm
          split: prod.split)
  qed
qed

lemma rx_nth: "i < length bs \<Longrightarrow> i < n \<Longrightarrow> rx n bs ! i = bs ! i"
  by (simp add: rx_def nth_append)

text \<open>
  C1 (as the code has it). After \<^verbatim>\<open>goodix_read_config\<close>, with \<open>cfg_len\<close> derived from
  the id, the stored resolution is what the registers say, unclamped: \<open>abs_x_max\<close> and
  \<open>abs_y_max\<close> lie in 1..65535. \<open>max_touch_num\<close> is at least 1 and the trigger index
  lies in 0..3. On the fallback paths (read failure, or a zero resolution or contact
  count) the four values are 4096, 4096, 10 and 1.
\<close>

theorem goodix_read_config_ranges:
  assumes "cfg_len ts = goodix_get_cfg_len (id_num ts)"
  shows "\<exists>ts' w'. goodix_read_config ts w = Some (ts', w') \<and>
     1 \<le> abs_x_max ts' \<and> abs_x_max ts' \<le> 65535 \<and>
     1 \<le> abs_y_max ts' \<and> abs_y_max ts' \<le> 65535 \<and>
     1 \<le> max_touch_num ts' \<and> int_trigger_type ts' \<le> 3 \<and>
     (xfer_status (fst (replies w (tick w))) 2 \<noteq> 0 \<or>
      get_unaligned_le16 (rx (nat (cfg_len ts)) (snd (replies w (tick w)))) 1 = Some 0 \<or>
      get_unaligned_le16 (rx (nat (cfg_len ts)) (snd (replies w (tick w)))) 3 = Some 0 \<or>
      rx (nat (cfg_len ts)) (snd (replies w (tick w))) ! 5 AND 0x0f = 0 \<longrightarrow>
        abs_x_max ts' = 4096 \<and> abs_y_max ts' = 4096 \<and>
        max_touch_num ts' = 10 \<and> int_trigger_type ts' = 1)"
proof -
  have "7 \<le> cfg_len ts" using assms goodix_get_cfg_len_ge [of "id_num ts"] by simp
  moreover have "replies w (tick w) = (fst (replies w (tick w)), snd (replies w (tick w)))"
    by simp
  ultimately show ?thesis by (rule goodix_read_config_cases)
qed

lemma goodix_read_config_eval:
  assumes "replies w (tick w) = (2, bs)" and "length bs = 7" and "cfg_len ts = 186"
    and "fst (replies w (Suc (tick w))) = 0" and "\<not> swapped_x_y ts"
    and "get_unaligned_le16 bs 1 = Some x" and "get_unaligned_le16 bs 3 = Some y"
    and "x \<noteq> 0" and "y \<noteq> 0" and "bs ! 5 AND 0x0f \<noteq> 0"
  shows "map_option (\<lambda>r. (abs_x_max (fst r), abs_y_max (fst r), max_touch_num (fst r),
            int_trigger_type (fst r))) (goodix_read_config ts w) =
         Some (uint x, uint y, unat (bs ! 5 AND 0x0f), unat (bs ! 6 AND 0x03))"
proof -
  let ?c = "rx 186 bs"
  have nth: "\<And>i. i < 7 \<Longrightarrow> ?c ! i = bs ! i" using assms(2) by (simp add: rx_nth)
  have rd: "goodix_i2c_read (client_addr ts) GOODIX_REG_CONFIG_DATA 186 w =
      ((0, ?c), w\<lparr>tick := tick w + 1, trace := trace w @
      [I2cRead (client_addr ts) GOODIX_REG_CONFIG_DATA 186]\<rparr>)"
    using assms(1) by (simp add: goodix_i2c_read_def ext_call_def xfer_status_def)
  have x: "get_unaligned_le16 ?c 1 = Some x"
    using assms(6) assms(2) by (simp add: get_unaligned_le16_def data_at_def length_rx nth)
  have y: "get_unaligned_le16 ?c 3 = Some y"
    using assms(7) assms(2) by (simp add: get_unaligned_le16_def data_at_def length_rx nth)
  have t: "data_at ?c 6 = Some (bs ! 6)" by (simp add: data_at_def length_rx nth)
  have m: "data_at ?c 5 = Some (bs ! 5)" by (simp add: data_at_def length_rx nth)
  have zx: "uint x \<noteq> 0" using assms(8) by (simp add: uint_0_iff)
  have zy: "uint y \<noteq> 0" using assms(9) by (simp add: uint_0_iff)
  have zm: "unat (bs ! 5 AND 0x0f) \<noteq> 0" using assms(10) by (simp add: unat_eq_0)
  show ?thesis
    using assms(3,4,5) zx zy zm
    by (simp add: goodix_read_config_def rd x y t m RESOLUTION_LOC_def TRIGGER_LOC_def
        MAX_CONTACTS_LOC_def Let_def ext_call_def split: prod.split)
qed

lemma world_of_fields: "replies (world_of f) = f" "tick (world_of f) = 0" "trace (world_of f) = []"
  by (simp_all add: world_of_def)

text \<open>
  A panel whose registers hold a resolution of 0xFFFF by 0xFFFF (with 10 contacts) is
  stored as read: beyond 4096.
\<close>

theorem goodix_read_config_oversize_counterexample:
  "map_option (\<lambda>r. (abs_x_max (fst r), abs_y_max (fst r), max_touch_num (fst r),
       int_trigger_type (fst r))) (goodix_read_config gt911 cfg_oversize) =
     Some (65535, 65535, 10, 3)"
proof -
  have "map_option (\<lambda>r. (abs_x_max (fst r), abs_y_max (fst r), max_touch_num (fst r),
       int_trigger_type (fst r))) (goodix_read_config gt911 cfg_oversize) =
     Some (uint (0xFFFF :: u16), uint (0xFFFF :: u16),
           unat ([0, 0xFF, 0xFF, 0xFF, 0xFF, 0x0A, 0x03] ! 5 AND 0x0f :: u8),
           unat ([0, 0xFF, 0xFF, 0xFF, 0xFF, 0x0A, 0x03] ! 6 AND 0x03 :: u8))"
    by (rule goodix_read_config_eval)
      (simp_all add: cfg_oversize_def world_of_fields gt911_def get_unaligned_le16_def data_at_def)
  then show ?thesis by simp
qed

theorem goodix_read_config_ranges_witness:
  "cfg_len gt911 = goodix_get_cfg_len (id_num gt911) \<and>
   (\<exists>ts' w'. goodix_read_config gt911 cfg_1024x600 = Some (ts', w') \<and>
      abs_x_max ts' = 1024 \<and> abs_y_max ts' = 600 \<and> max_touch_num ts' = 5 \<and>
      int_trigger_type ts' = 1 \<and>
      1 \<le> abs_x_max ts' \<and> abs_x_max ts' \<le> 65535 \<and>
      1 \<le> abs_y_max ts' \<and> abs_y_max ts' \<le> 65535 \<and>
      1 \<le> max_touch_num ts' \<and> int_trigger_type ts' \<le> 3)"
proof -
  have h: "cfg_len gt911 = goodix_get_cfg_len (id_num gt911)"
    by (simp add: gt911_def goodix_get_cfg_len_def GOODIX_CONFIG_911_LENGTH_def)
  have "map_option (\<lambda>r. (abs_x_max (fst r), abs_y_max (fst r), max_touch_num (fst r),
       int_trigger_type (fst r))) (goodix_read_config gt911 cfg_1024x600) =
     Some (uint (0x0400 :: u16), uint (0x0258 :: u16),
           unat ([0, 0x00, 0x04, 0x58, 0x02, 0x05, 0x01] ! 5 AND 0x0f :: u8),
           unat ([0, 0x00, 0x04, 0x58, 0x02, 0x05, 0x01] ! 6 AND 0x03 :: u8))"
    by (rule goodix_read_config_eval)
      (simp_all add: cfg_1024x600_def world_of_fields gt911_def get_unaligned_le16_def data_at_def)
  then have v: "map_option (\<lambda>r. (abs_x_max (fst r), abs_y_max (fst r), max_touch_num (fst r),
       int_trigger_type (fst r))) (goodix_read_config gt911 cfg_1024x600) =
     Some (1024, 600, 5, 1)" by simp
  show ?thesis
    using h v goodix_read_config_ranges [OF h, of cfg_1024x600] by auto
qed

subsection \<open>ESD supervisor\<close>

lemma goodix_i2c_read_eq:
  "goodix_i2c_read a reg n w =
     ((xfer_status (fst (replies w (tick w))) 2, rx n (snd (replies w (tick w)))),
      w\<lparr>tick := tick w + 1, trace := trace w @ [I2cRead a reg n]\<rparr>)"
  by (simp add: goodix_i2c_read_def ext_call_def split: prod.split)

lemma esd_retry_loop_two_failures:
  assumes "xfer_status (fst (replies w (tick w))) 2 \<noteq> 0"
    and "xfer_status (fst (replies w (Suc (tick w)))) 2 \<noteq> 0"
  shows "esd_retry_loop ts 3 w =
     (0, w\<lparr>tick := tick w + 2, trace := trace w @
        [I2cRead (client_addr ts) GOODIX_REG_COMMAND 2,
         I2cRead (client_addr ts) GOODIX_REG_COMMAND 2]\<rparr>)"
proof -
  let ?w1 = "w\<lparr>tick := tick w + 1, trace := trace w @
      [I2cRead (client_addr ts) GOODIX_REG_COMMAND 2]\<rparr>"
  let ?w2 = "w\<lparr>tick := tick w + 2, trace := trace w @
        [I2cRead (client_addr ts) GOODIX_REG_COMMAND 2,
         I2cRead (client_addr ts) GOODIX_REG_COMMAND 2]\<rparr>"
  have 1: "esd_retry_loop ts 3 w = esd_retry_loop ts 2 ?w1"
    using assms(1) by (subst esd_retry_loop.simps) (simp add: goodix_i2c_read_eq)
  have 2: "esd_retry_loop ts 2 ?w1 = esd_retry_loop ts 1 ?w2"
    using assms(2) by (subst esd_retry_loop.simps) (simp add: goodix_i2c_read_eq)
  have 3: "esd_retry_loop ts 1 ?w2 = (0, ?w2)"
    by (subst esd_retry_loop.simps) simp
  show ?thesis by (simp only: 1 2 3)
qed

lemma reg_esd_check_bytes: "reg_hi GOODIX_REG_ESD_CHECK = 0x80" "reg_lo GOODIX_REG_ESD_CHECK = 0x41"
  by (simp_all add: reg_hi_def reg_lo_def GOODIX_REG_ESD_CHECK_def)

text \<open>
  C2 (the code at a failing input). \<^verbatim>\<open>retries\<close> starts at 3 and the loop condition is
  \<^verbatim>\<open>--retries\<close>, so a tick reads register 0x8040 at most twice. Here the first two
  reads fail; the tick makes no third read and runs ESD recovery: IRQ freed, reset
  handshake, firmware requested, IRQ requested, watchdog armed and rescheduled.
\<close>

theorem goodix_esd_work_recovers_after_two_reads:
  "map_option trace (goodix_esd_work gt911 esd_two_failures) =
     Some [WaitForCompletion, I2cRead 0x14 0x8040 2, I2cRead 0x14 0x8040 2, FreeIrq,
           GpioOut GPIO_RST 0, Msleep 20, GpioOut GPIO_INT 1, UsleepRange 100 2000,
           GpioOut GPIO_RST 1, UsleepRange 6000 10000, GpioOut GPIO_INT 0, Msleep 50,
           GpioIn GPIO_INT, RequestFirmware, RequestIrq,
           Kmalloc 3, I2cWrite 0x14 [0x80, 0x41, 0xAA], Kfree, ScheduleDelayedWork 2000]"
proof -
  have f: "xfer_status (fst (replies (emit WaitForCompletion esd_two_failures)
              (tick (emit WaitForCompletion esd_two_failures)))) 2 \<noteq> 0"
    "xfer_status (fst (replies (emit WaitForCompletion esd_two_failures)
              (Suc (tick (emit WaitForCompletion esd_two_failures))))) 2 \<noteq> 0"
    by (simp_all add: esd_two_failures_def world_of_def emit_def xfer_status_def)
  show ?thesis
    unfolding goodix_esd_work_def esd_retry_loop_two_failures [OF f]
    by (simp add: goodix_free_irq_def goodix_reset_def goodix_int_sync_def
        set_reset_output_val_eq set_int_output_val_eq set_int_input_eq
        goodix_request_irq_eq goodix_enable_esd_def goodix_i2c_write_u8_eq ext_call_def
        emit_def reg_esd_check_bytes gt911_fields esd_two_failures_def world_of_def
        xfer_status_def GOODIX_REG_COMMAND_def GOODIX_CMD_ESD_ENABLED_def)
qed

end
